theory Spec2Isabelle
  imports Main "HOL-Library.Multiset"
begin

section \<open>The in-memory indexer \<open>DocarrayIndexerV3\<close>\<close>

text \<open>
  The development embeds \<^verbatim>\<open>now_executors/docarray_indexer/docarray_indexer_v3.py\<close>:
  the executor that keeps the indexed documents in a \<^verbatim>\<open>DocumentArray\<close> and answers
  the endpoints \<^verbatim>\<open>/index\<close>, \<^verbatim>\<open>/list\<close>, \<^verbatim>\<open>/search\<close> and \<^verbatim>\<open>/delete\<close>.

  The executor is stateful (the attribute \<^verbatim>\<open>self.index\<close>), so every endpoint takes the
  executor and returns it updated, together with its result. Exceptions are values of
  the type \<open>error\<close>. The two calls into the docarray library whose behaviour depends on
  the library's query language and on vector similarity, \<^verbatim>\<open>DocumentArray.find\<close> and
  \<^verbatim>\<open>DocumentArray.match\<close>, are parameters of the model: the theorems hold for every
  behaviour of the two.
\<close>

subsection \<open>Python values and dictionaries\<close>

text \<open>
  Request parameters, tags and filter expressions are JSON-like Python values. A
  dictionary is an association list in insertion order, as Python's \<^verbatim>\<open>dict\<close> iterates.
\<close>

datatype pyval =
    PNone
  | PBool bool
  | PInt int
  | PStr string
  | PList "pyval list"
  | PDict "(string \<times> pyval) list"

type_synonym pydict = "(string \<times> pyval) list"

text \<open>\<^verbatim>\<open>d[k] = v\<close>: an existing key keeps its position, a new key goes last.\<close>

fun dict_set :: "pydict \<Rightarrow> string \<Rightarrow> pyval \<Rightarrow> pydict" where
  "dict_set [] k v = [(k, v)]"
| "dict_set ((k', v') # d) k v =
     (if k' = k then (k, v) # d else (k', v') # dict_set d k v)"

text \<open>\<^verbatim>\<open>del d[k]\<close> for a key that is present.\<close>

definition dict_del :: "pydict \<Rightarrow> string \<Rightarrow> pydict" where
  "dict_del d k = filter (\<lambda>kv. fst kv \<noteq> k) d"

datatype error =
    IndexError
  | KeyError
  | AttributeError
  | TypeError
  | ValueError
  | Library string

subsection \<open>Documents, the executor and request parameters\<close>

text \<open>
  A docarray \<^verbatim>\<open>Document\<close> with the attributes the executor reads or writes. A document
  without a parent has \<^verbatim>\<open>parent_id\<close> \<^verbatim>\<open>None\<close>.
\<close>

datatype doc =
  Doc (doc_id: string) (parent_id: "string option") (uri: string) (tags: pydict)
      (chunks: "doc list") (matches: "doc list")

text \<open>The assignments \<^verbatim>\<open>d.chunks = cs\<close> and \<^verbatim>\<open>d.matches = ms\<close>.\<close>

fun set_chunks :: "doc \<Rightarrow> doc list \<Rightarrow> doc" where
  "set_chunks (Doc i p u t cs ms) cs' = Doc i p u t cs' ms"

fun set_matches :: "doc \<Rightarrow> doc list \<Rightarrow> doc" where
  "set_matches (Doc i p u t cs ms) ms' = Doc i p u t cs ms'"

text \<open>
  The traversal paths the executor distinguishes: \<^verbatim>\<open>"@r"\<close> (root documents, its default)
  and \<^verbatim>\<open>"@c"\<close> (their chunks).
\<close>

datatype traversal = Root | Chunks

record executor =
  traversal_paths :: traversal
  index :: "doc list"

text \<open>
  The \<^verbatim>\<open>parameters\<close> dictionary of a request; an absent key is \<open>None\<close>. The numbers are
  taken to be integers, on which \<^verbatim>\<open>int(...)\<close> is the identity. The key \<^verbatim>\<open>ids\<close> is one
  that callers may send; no endpoint of the executor reads it.
\<close>

record parameters =
  p_limit :: "int option"
  p_offset :: "int option"
  p_traversal_paths :: "traversal option"
  p_filter :: "pyval option"
  p_ids :: "string list option"

definition no_parameters :: parameters where
  "no_parameters =
     \<lparr>p_limit = None, p_offset = None, p_traversal_paths = None, p_filter = None,
      p_ids = None\<rparr>"

text \<open>\<^verbatim>\<open>__init__\<close>: the given traversal paths (default \<^verbatim>\<open>"@r"\<close>) and an empty index.\<close>

definition init :: "traversal \<Rightarrow> executor" where
  "init tp = \<lparr>traversal_paths = tp, index = []\<rparr>"

subsection \<open>The library's sequence operations\<close>

text \<open>\<^verbatim>\<open>sys.maxsize\<close> on a 64-bit platform: no Python sequence is longer.\<close>

definition maxsize :: int where
  "maxsize = 2 ^ 63 - 1"

text \<open>
  Python's slice \<^verbatim>\<open>xs[start:stop]\<close>: a negative bound counts from the end, and both
  bounds are clamped to the sequence.
\<close>

definition slice_bound :: "int \<Rightarrow> int \<Rightarrow> nat" where
  "slice_bound n i = nat (if i < 0 then max (i + n) 0 else min i n)"

definition py_slice :: "'a list \<Rightarrow> int \<Rightarrow> int \<Rightarrow> 'a list" where
  "py_slice xs start stop =
     (let n = int (length xs); a = slice_bound n start; b = slice_bound n stop
      in take (b - a) (drop a xs))"

text \<open>
  \<^verbatim>\<open>da[path]\<close> for a traversal path: the documents themselves, or the chunks of all of
  them in order.
\<close>

fun getitem_path :: "doc list \<Rightarrow> traversal \<Rightarrow> doc list" where
  "getitem_path da Root = da"
| "getitem_path da Chunks = concat (map chunks da)"

text \<open>
  \<^verbatim>\<open>da[id]\<close>: the document stored under an id, \<^verbatim>\<open>KeyError\<close> when there is none. The
  library's offset table maps an id to its last position. An index that is not a
  string (\<^verbatim>\<open>None\<close>) is refused with \<^verbatim>\<open>IndexError\<close>.
\<close>

definition getitem_id :: "doc list \<Rightarrow> string option \<Rightarrow> error + doc" where
  "getitem_id da k =
     (case k of
        None \<Rightarrow> Inl IndexError
      | Some i \<Rightarrow>
          (case find (\<lambda>d. doc_id d = i) (rev da) of
             None \<Rightarrow> Inl KeyError
           | Some d \<Rightarrow> Inr d))"

subsection \<open>The endpoints \<open>/index\<close> and \<open>/list\<close>\<close>

text \<open>
  \<^verbatim>\<open>index\<close>: \<^verbatim>\<open>self.index.extend(docs)\<close>, answering an empty \<^verbatim>\<open>DocumentArray\<close>.
\<close>

definition index_op :: "executor \<Rightarrow> doc list \<Rightarrow> doc list \<times> executor" where
  "index_op self docs = ([], self\<lparr>index := index self @ docs\<rparr>)"

text \<open>\<^verbatim>\<open>Document(id=d.id, uri=d.uri, tags=d.tags)\<close>.\<close>

definition light :: "doc \<Rightarrow> doc" where
  "light d = Doc (doc_id d) None (uri d) (tags d) [] []"

definition list_op :: "executor \<Rightarrow> parameters \<Rightarrow> doc list" where
  "list_op self parameters =
     (let limit = (case p_limit parameters of None \<Rightarrow> maxsize | Some l \<Rightarrow> l);
          offset = (case p_offset parameters of None \<Rightarrow> 0 | Some off \<Rightarrow> off);
          part = py_slice (index self) offset (offset + limit)
      in map light part)"

subsection \<open>The filter adapter and \<open>/delete\<close>\<close>

text \<open>
  The library's \<^verbatim>\<open>find(filter=...)\<close> and \<^verbatim>\<open>match(darray, limit=...)\<close>. \<^verbatim>\<open>find\<close> answers
  a new array of the selected documents; \<^verbatim>\<open>match\<close> attaches matches to the query
  documents it is called on, which the model returns. Either may raise an exception
  of the library, named by a string.
\<close>

type_synonym find_fn = "pyval \<Rightarrow> doc list \<Rightarrow> string + doc list"

type_synonym match_fn = "doc list \<Rightarrow> doc list \<Rightarrow> int \<Rightarrow> string + doc list"

definition lib :: "string + 'a \<Rightarrow> error + 'a" where
  "lib r = (case r of Inl e \<Rightarrow> Inl (Library e) | Inr x \<Rightarrow> Inr x)"

text \<open>
  The body of the loop of \<^verbatim>\<open>filter_docs\<close> on one conjunct \<^verbatim>\<open>query\<close>:
  \<^verbatim>\<open>tag = list(query.keys())[0]\<close>, \<^verbatim>\<open>query['tags__' + tag] = query[tag]\<close>,
  \<^verbatim>\<open>del query[tag]\<close>. A conjunct that is no dictionary has no \<^verbatim>\<open>keys\<close>; an empty one has
  no first key.
\<close>

fun adapt_query :: "pyval \<Rightarrow> error + pyval" where
  "adapt_query (PDict []) = Inl IndexError"
| "adapt_query (PDict ((tag, v) # rest)) =
     Inr (PDict (dict_del (dict_set ((tag, v) # rest) (''tags__'' @ tag) v) tag))"
| "adapt_query _ = Inl AttributeError"

text \<open>\<^verbatim>\<open>for query in filter['$and']\<close>: the conjuncts in order, stopping at the first error.\<close>

fun adapt_queries :: "pyval list \<Rightarrow> error + pyval list" where
  "adapt_queries [] = Inr []"
| "adapt_queries (q # qs) =
     (case adapt_query q of
        Inl e \<Rightarrow> Inl e
      | Inr q' \<Rightarrow>
          (case adapt_queries qs of
             Inl e \<Rightarrow> Inl e
           | Inr qs' \<Rightarrow> Inr (q' # qs')))"

text \<open>
  What a \<^verbatim>\<open>for\<close> loop iterates over: the elements of a list, the keys of a dictionary,
  the characters of a string; anything else is not iterable.
\<close>

fun iter_items :: "pyval \<Rightarrow> error + pyval list" where
  "iter_items (PList xs) = Inr xs"
| "iter_items (PDict d) = Inr (map (\<lambda>kv. PStr (fst kv)) d)"
| "iter_items (PStr s) = Inr (map (\<lambda>c. PStr [c]) s)"
| "iter_items _ = Inl TypeError"

text \<open>
  The rewriting \<^verbatim>\<open>filter_docs\<close> does in place on the filter dictionary before it calls
  \<^verbatim>\<open>find\<close>: nothing without a key \<^verbatim>\<open>$and\<close>, the loop over \<^verbatim>\<open>filter['$and']\<close> otherwise.
\<close>

definition adapt_filter :: "pydict \<Rightarrow> error + pydict" where
  "adapt_filter flt =
     (case map_of flt ''$and'' of
        None \<Rightarrow> Inr flt
      | Some a \<Rightarrow>
          (case iter_items a of
             Inl e \<Rightarrow> Inl e
           | Inr qs \<Rightarrow>
               (case adapt_queries qs of
                  Inl e \<Rightarrow> Inl e
                | Inr qs' \<Rightarrow>
                    Inr (case a of
                           PList _ \<Rightarrow> dict_set flt ''$and'' (PList qs')
                         | _ \<Rightarrow> flt))))"

text \<open>
  \<^verbatim>\<open>filter_docs\<close>: the filter is \<^verbatim>\<open>parameters.get("filter", {})\<close>; a value that is no
  dictionary has no \<^verbatim>\<open>keys\<close>.
\<close>

definition filter_docs :: "find_fn \<Rightarrow> executor \<Rightarrow> parameters \<Rightarrow> error + doc list" where
  "filter_docs lib_find self parameters =
     (case (case p_filter parameters of None \<Rightarrow> PDict [] | Some f \<Rightarrow> f) of
        PDict flt \<Rightarrow>
          (case adapt_filter flt of
             Inl e \<Rightarrow> Inl e
           | Inr flt' \<Rightarrow> lib (lib_find (PDict flt') (index self)))
      | _ \<Rightarrow> Inl AttributeError)"



subsection \<open>\<open>/search\<close> and the merging of chunk matches\<close>

text \<open>
  The inner loop of \<^verbatim>\<open>merge_matches\<close> over the matches \<^verbatim>\<open>m\<close> of one query document, with
  the lists \<^verbatim>\<open>parents\<close> and \<^verbatim>\<open>parent_ids\<close> collected so far. \<^verbatim>\<open>deepcopy\<close> gives a new
  document, so the assignment \<^verbatim>\<open>parent.chunks = []\<close> changes the copy only; the test
  \<^verbatim>\<open>len(parents) == limit\<close> comes after the append.
\<close>

fun unique_parents ::
  "doc list \<Rightarrow> int \<Rightarrow> doc list \<Rightarrow> doc list \<Rightarrow> string option list \<Rightarrow> error + doc list" where
  "unique_parents da limit [] parents parent_ids = Inr parents"
| "unique_parents da limit (m # ms) parents parent_ids =
     (if parent_id m \<in> set parent_ids then unique_parents da limit ms parents parent_ids
      else
        (case getitem_id da (parent_id m) of
           Inl e \<Rightarrow> Inl e
         | Inr parent \<Rightarrow>
             (let parents' = parents @ [set_chunks parent []];
                  parent_ids' = parent_ids @ [parent_id m]
              in if int (length parents') = limit then Inr parents'
                 else unique_parents da limit ms parents' parent_ids')))"

text \<open>
  \<^verbatim>\<open>merge_matches\<close>: every query document \<^verbatim>\<open>d\<close> gets \<^verbatim>\<open>d.matches = parents\<close>. The Python
  mutates \<^verbatim>\<open>docs\<close>; the model returns them.
\<close>

fun merge_matches :: "executor \<Rightarrow> doc list \<Rightarrow> int \<Rightarrow> error + doc list" where
  "merge_matches self [] limit = Inr []"
| "merge_matches self (d # docs) limit =
     (case unique_parents (index self) limit (matches d) [] [] of
        Inl e \<Rightarrow> Inl e
      | Inr parents \<Rightarrow>
          (case merge_matches self docs limit of
             Inl e \<Rightarrow> Inl e
           | Inr docs' \<Rightarrow> Inr (set_matches d parents # docs')))"

text \<open>\<^verbatim>\<open>parameters.get("traversal_paths", self.traversal_paths)\<close>.\<close>

definition paths_of :: "executor \<Rightarrow> parameters \<Rightarrow> traversal" where
  "paths_of self parameters =
     (case p_traversal_paths parameters of None \<Rightarrow> traversal_paths self | Some tp \<Rightarrow> tp)"

text \<open>\<^verbatim>\<open>parameters.get("limit", 20)\<close>.\<close>

definition limit_of :: "parameters \<Rightarrow> int" where
  "limit_of parameters = (case p_limit parameters of None \<Rightarrow> 20 | Some l \<Rightarrow> l)"

text \<open>
  \<^verbatim>\<open>search\<close>. The assignment \<^verbatim>\<open>self.index = self.index[traversal_paths]\<close> comes first, so
  the executor returned carries the new index also when a later step raises.
  \<^verbatim>\<open>docs[0]\<close> raises \<^verbatim>\<open>IndexError\<close> on an empty request.
\<close>

definition search ::
  "find_fn \<Rightarrow> match_fn \<Rightarrow> executor \<Rightarrow> doc list \<Rightarrow> parameters \<Rightarrow> (error + doc list) \<times> executor"
  where
  "search lib_find lib_match self docs parameters =
     (let limit = limit_of parameters;
          tp = paths_of self parameters;
          self' = self\<lparr>index := getitem_path (index self) tp\<rparr>
      in case filter_docs lib_find self' parameters of
           Inl e \<Rightarrow> (Inl e, self')
         | Inr filtered_docs \<Rightarrow>
             (case (if tp = Chunks
                    then (case docs of
                            [] \<Rightarrow> Inl IndexError
                          | d # _ \<Rightarrow> Inr (chunks d, limit * 10))
                    else Inr (docs, limit)) of
                Inl e \<Rightarrow> (Inl e, self')
              | Inr (docs', match_limit) \<Rightarrow>
                  (case lib (lib_match docs' filtered_docs match_limit) of
                     Inl e \<Rightarrow> (Inl e, self')
                   | Inr matched \<Rightarrow>
                       (if tp = Chunks then (merge_matches self' matched limit, self')
                        else (Inr matched, self')))))"

subsection \<open>Instances of the library calls\<close>

text \<open>
  To run the model on concrete requests, one behaviour of \<^verbatim>\<open>find\<close> and one of \<^verbatim>\<open>match\<close>.
  \<open>find_eq\<close> evaluates the filters of the docstring of \<^verbatim>\<open>search\<close> in their adapted form:
  the empty filter selects every document, \<^verbatim>\<open>{'tags__k': {'$eq': v}}\<close> those whose tag
  \<^verbatim>\<open>k\<close> is \<^verbatim>\<open>v\<close>, and \<^verbatim>\<open>{'$and': [...]}\<close> those that satisfy every such conjunct; it raises
  on any other filter. \<open>match_first\<close> treats all candidates as equally near: every
  query document is matched with the first \<^verbatim>\<open>limit\<close> candidates.
\<close>

fun leaf_holds :: "doc \<Rightarrow> string \<times> pyval \<Rightarrow> bool option" where
  "leaf_holds d (k, PDict [(oper, v)]) =
     (if take 6 k = ''tags__'' \<and> oper = ''$eq''
      then Some (map_of (tags d) (drop 6 k) = Some v) else None)"
| "leaf_holds d _ = None"

fun query_holds :: "doc \<Rightarrow> pyval \<Rightarrow> bool option" where
  "query_holds d (PDict [kv]) = leaf_holds d kv"
| "query_holds d _ = None"

fun filter_holds :: "doc \<Rightarrow> pyval \<Rightarrow> bool option" where
  "filter_holds d (PDict []) = Some True"
| "filter_holds d (PDict [(k, PList qs)]) =
     (if k = ''$and'' \<and> list_all (\<lambda>q. query_holds d q \<noteq> None) qs
      then Some (list_all (\<lambda>q. query_holds d q = Some True) qs) else None)"
| "filter_holds d (PDict [kv]) = leaf_holds d kv"
| "filter_holds d _ = None"

definition find_eq :: find_fn where
  "find_eq flt da =
     (if list_all (\<lambda>d. filter_holds d flt \<noteq> None) da
      then Inr (filter (\<lambda>d. filter_holds d flt = Some True) da)
      else Inl ''ValueError'')"

definition match_first :: match_fn where
  "match_first docs darray limit =
     Inr (map (\<lambda>q. set_matches q (take (nat limit) darray)) docs)"

subsection \<open>The mapping builder of the persistent backend\<close>

text \<open>
  The class \<^verbatim>\<open>NOWElasticIndexer\<close> is exercised by
  \<^verbatim>\<open>tests/executor/indexer/elastic/test_executor.py\<close>, but its module is not among the
  sources. Its mapping builder is therefore written from the specification
  (sections 4.1 and 6) and from the mapping that \<^verbatim>\<open>test_generate_es_mappings\<close> expects.
\<close>

text \<open>Modelled from the spec: the \<^verbatim>\<open>FieldEncoding\<close> triple of section 3.\<close>

record field_encoding =
  field_name :: string
  encoder_name :: string
  embedding_dimension :: int

text \<open>
  Modelled from the spec: the configuration entry \<^verbatim>\<open>FieldEmbedding(encoder, dim, fields)\<close>
  the test builds, one encoder with its dimension over several document fields.
\<close>

record field_embedding =
  fe_encoder :: string
  fe_dim :: int
  fe_fields :: "string list"

datatype config_error = ConfigurationError

text \<open>Python's \<^verbatim>\<open>str\<close> of a natural number: its decimal digits.\<close>

function str_nat :: "nat \<Rightarrow> string" where
  "str_nat n =
     (if n < 10 then [''0123456789'' ! n]
      else str_nat (n div 10) @ [''0123456789'' ! (n mod 10)])"
  by pat_completeness auto
termination
  by (relation "measure id") auto

text \<open>
  Modelled from the spec: the vector sub-object of one \<^verbatim>\<open>(document_field, encoder)\<close> pair,
  \<^verbatim>\<open>{properties: {embedding: {type: dense_vector, dims: <n>, similarity: <metric>,
  index: true}}}\<close> under the name \<^verbatim>\<open>"<document_field>-<encoder>"\<close>, with the dimension as a
  string (section 6); the test expects the index flag as the string \<^verbatim>\<open>'true'\<close> too.
\<close>

definition vector_field :: "string \<Rightarrow> field_encoding \<Rightarrow> string \<times> pyval" where
  "vector_field metric fe =
     (field_name fe @ ''-'' @ encoder_name fe,
      PDict [(''properties'',
        PDict [(''embedding'',
          PDict [(''type'', PStr ''dense_vector''),
                 (''dims'', PStr (str_nat (nat (embedding_dimension fe)))),
                 (''similarity'', PStr metric),
                 (''index'', PStr ''true'')])])])"

text \<open>
  Modelled from the spec: \<^verbatim>\<open>generate_mapping(field_encodings, metric)\<close> of section 4.1. It
  always emits the keyword field \<^verbatim>\<open>id\<close> and the analyzed text field \<^verbatim>\<open>bm25_text\<close>, then one
  vector field per encoding in the order of the list. It fails with
  \<^verbatim>\<open>ConfigurationError\<close> on a dimension that is not positive, on an unsupported metric
  and on a repeated \<^verbatim>\<open>(field, encoder)\<close> pair. The spec names cosine as the default
  metric and does not list the supported ones, so they are a parameter.
\<close>

definition generate_mapping ::
  "(string \<Rightarrow> bool) \<Rightarrow> field_encoding list \<Rightarrow> string \<Rightarrow> config_error + pyval" where
  "generate_mapping supported field_encodings metric =
     (if \<not> supported metric then Inl ConfigurationError
      else if list_ex (\<lambda>fe. embedding_dimension fe \<le> 0) field_encodings
        then Inl ConfigurationError
      else if \<not> distinct (map (\<lambda>fe. (field_name fe, encoder_name fe)) field_encodings)
        then Inl ConfigurationError
      else Inr (PDict [(''properties'',
             PDict ([(''id'', PDict [(''type'', PStr ''keyword'')]),
                     (''bm25_text'',
                        PDict [(''type'', PStr ''text''), (''analyzer'', PStr ''standard'')])]
                    @ map (vector_field metric) field_encodings))]))"

text \<open>
  Modelled from the spec: \<^verbatim>\<open>NOWElasticIndexer.generate_es_mapping(document_mappings,
  metric)\<close> as the test calls it: every \<^verbatim>\<open>FieldEmbedding\<close> stands for one encoding per
  field it lists.
\<close>

definition encodings_of :: "field_embedding list \<Rightarrow> field_encoding list" where
  "encodings_of document_mappings =
     concat (map (\<lambda>fe. map (\<lambda>f. \<lparr>field_name = f, encoder_name = fe_encoder fe,
                                    embedding_dimension = fe_dim fe\<rparr>) (fe_fields fe))
                 document_mappings)"

definition generate_es_mapping ::
  "(string \<Rightarrow> bool) \<Rightarrow> field_embedding list \<Rightarrow> string \<Rightarrow> config_error + pyval" where
  "generate_es_mapping supported document_mappings metric =
     generate_mapping supported (encodings_of document_mappings) metric"

definition only_cosine :: "string \<Rightarrow> bool" where
  "only_cosine metric = (metric = ''cosine'')"

text \<open>The configuration and the expected mapping of \<^verbatim>\<open>test_generate_es_mappings\<close>.\<close>

definition document_mappings :: "field_embedding list" where
  "document_mappings =
     [\<lparr>fe_encoder = ''clip'', fe_dim = 8, fe_fields = [''title'']\<rparr>,
      \<lparr>fe_encoder = ''sbert'', fe_dim = 5, fe_fields = [''title'', ''excerpt'']\<rparr>]"

definition dense_vector :: "string \<Rightarrow> pyval" where
  "dense_vector dims =
     PDict [(''properties'',
       PDict [(''embedding'',
         PDict [(''type'', PStr ''dense_vector''), (''dims'', PStr dims),
                (''similarity'', PStr ''cosine''), (''index'', PStr ''true'')])])]"

definition expected_mapping :: pyval where
  "expected_mapping =
     PDict [(''properties'',
       PDict [(''id'', PDict [(''type'', PStr ''keyword'')]),
              (''bm25_text'',
                 PDict [(''type'', PStr ''text''), (''analyzer'', PStr ''standard'')]),
              (''title-clip'', dense_vector ''8''),
              (''title-sbert'', dense_vector ''5''),
              (''excerpt-sbert'', dense_vector ''5'')])]"

subsection \<open>Sample documents and requests\<close>

definition count_id :: "doc list \<Rightarrow> string \<Rightarrow> nat" where
  "count_id da i = length (filter (\<lambda>d. doc_id d = i) da)"

definition doc_a :: doc where
  "doc_a = Doc ''a'' None ''a.txt'' [(''color'', PStr ''red'')] [] []"

definition doc_a' :: doc where
  "doc_a' = Doc ''a'' None ''a.txt'' [(''color'', PStr ''blue'')] [] []"

definition doc_b :: doc where
  "doc_b = Doc ''b'' None ''b.txt'' [(''color'', PStr ''blue'')] [] []"

definition doc_c :: doc where
  "doc_c = Doc ''c'' None ''c.txt'' [(''color'', PStr ''red'')] [] []"

definition store_abc :: executor where
  "store_abc = \<lparr>traversal_paths = Root, index = [doc_a, doc_b, doc_c]\<rparr>"

text \<open>
  A store of two parents with their chunks, a query document with one chunk, and a
  query chunk that carries four chunk matches from the two parents.
\<close>

definition chunk_p1 :: doc where
  "chunk_p1 = Doc ''p1'' (Some ''p'') [] [] [] []"

definition chunk_p2 :: doc where
  "chunk_p2 = Doc ''p2'' (Some ''p'') [] [] [] []"

definition chunk_r1 :: doc where
  "chunk_r1 = Doc ''r1'' (Some ''r'') [] [] [] []"

definition parent_p :: doc where
  "parent_p = Doc ''p'' None ''p.txt'' [(''color'', PStr ''red'')] [chunk_p1, chunk_p2] []"

definition parent_r :: doc where
  "parent_r = Doc ''r'' None ''r.txt'' [(''color'', PStr ''blue'')] [chunk_r1] []"

definition store_pr :: executor where
  "store_pr = \<lparr>traversal_paths = Root, index = [parent_p, parent_r]\<rparr>"

definition query_chunk :: doc where
  "query_chunk = Doc ''q1'' (Some ''q'') [] [] [] []"

definition query_q :: doc where
  "query_q = Doc ''q'' None [] [] [query_chunk] []"



definition chunk_search :: parameters where
  "chunk_search = no_parameters\<lparr>p_traversal_paths := Some Chunks\<rparr>"




section \<open>Properties\<close>

subsection \<open>Slices\<close>

lemma slice_bound_nonneg: "0 \<le> i \<Longrightarrow> slice_bound (int n) i = min (nat i) n"
  unfolding slice_bound_def by (cases "i \<le> int n") (auto simp: min_def)

lemma slice_nonneg:
  assumes "0 \<le> a" and "0 \<le> l"
  shows "py_slice xs a (a + l) = take (nat l) (drop (nat a) xs)"
proof -
  from assms have "0 \<le> a + l" by simp
  then have B: "slice_bound (int (length xs)) (a + l) = min (nat a + nat l) (length xs)"
    using assms by (simp add: slice_bound_nonneg nat_add_distrib)
  have A: "slice_bound (int (length xs)) a = min (nat a) (length xs)"
    using assms by (simp add: slice_bound_nonneg)
  show ?thesis
  proof (cases "nat a \<le> length xs")
    case True
    then have "min (nat a + nat l) (length xs) - min (nat a) (length xs)
        = min (nat l) (length xs - nat a)" by arith
    with True show ?thesis
      unfolding py_slice_def Let_def A B by (simp add: min_def)
  next
    case False
    then show ?thesis
      unfolding py_slice_def Let_def A B by (simp add: min_def)
  qed
qed

lemma maxsize_nonneg: "0 \<le> maxsize"
  by (simp add: maxsize_def)

lemma slice_default_limit:
  assumes "0 \<le> a" and "int (length xs) \<le> maxsize"
  shows "py_slice xs a (a + maxsize) = drop (nat a) xs"
proof -
  from assms(2) have "length xs \<le> nat maxsize" by linarith
  then have "take (nat maxsize) (drop (nat a) xs) = drop (nat a) xs" by simp
  with assms(1) show ?thesis by (simp add: slice_nonneg maxsize_nonneg)
qed

subsection \<open>\<open>/list\<close> and \<open>/index\<close>\<close>

lemma list_op_both:
  "0 \<le> off \<Longrightarrow> 0 \<le> lim \<Longrightarrow>
   list_op self (p\<lparr>p_limit := Some lim, p_offset := Some off\<rparr>)
     = map light (take (nat lim) (drop (nat off) (index self)))"
  by (simp add: list_op_def slice_nonneg)

lemma list_op_offset:
  "0 \<le> off \<Longrightarrow> int (length (index self)) \<le> maxsize \<Longrightarrow>
   list_op self (p\<lparr>p_limit := None, p_offset := Some off\<rparr>)
     = map light (drop (nat off) (index self))"
  by (simp add: list_op_def slice_default_limit)

lemma list_op_limit:
  "0 \<le> lim \<Longrightarrow>
   list_op self (p\<lparr>p_limit := Some lim, p_offset := None\<rparr>)
     = map light (take (nat lim) (index self))"
  using slice_nonneg [of 0 lim "index self"] by (simp add: list_op_def)

text \<open>
  Claim C6, as amended. For a store of \<open>N\<close> documents (no more than \<^verbatim>\<open>sys.maxsize\<close>, as
  every Python sequence) and a limit and an offset that are not negative, \<^verbatim>\<open>list\<close>
  answers the light copies of the stored documents in insertion order, skipping the
  first \<open>offset\<close> (default 0) and keeping at most \<open>limit\<close> (default: all that remain).
  \<^verbatim>\<open>list({limit: 1})\<close> answers \<open>min 1 N\<close> documents, that is one when the store is not
  empty; \<^verbatim>\<open>list({offset: 1})\<close> answers \<open>N - 1\<close>, none for the empty store; an offset of \<open>N\<close>
  or more gives the empty result.
\<close>

theorem list_pagination:
  assumes "0 \<le> off" and "0 \<le> lim" and "int (length (index self)) \<le> maxsize"
  shows "list_op self (p\<lparr>p_limit := Some lim, p_offset := Some off\<rparr>)
           = map light (take (nat lim) (drop (nat off) (index self)))
       \<and> list_op self (p\<lparr>p_limit := None, p_offset := Some off\<rparr>)
           = map light (drop (nat off) (index self))
       \<and> list_op self (p\<lparr>p_limit := Some lim, p_offset := None\<rparr>)
           = map light (take (nat lim) (index self))
       \<and> length (list_op self (p\<lparr>p_limit := Some 1, p_offset := None\<rparr>))
           = min 1 (length (index self))
       \<and> length (list_op self (p\<lparr>p_limit := None, p_offset := Some 1\<rparr>))
           = length (index self) - 1
       \<and> (int (length (index self)) \<le> off \<longrightarrow>
            list_op self (p\<lparr>p_limit := Some lim, p_offset := Some off\<rparr>) = [])"
proof -
  have "length (list_op self (p\<lparr>p_limit := Some 1, p_offset := None\<rparr>))
          = min 1 (length (index self))"
    using list_op_limit [of 1 self p] by simp
  moreover have "length (list_op self (p\<lparr>p_limit := None, p_offset := Some 1\<rparr>))
          = length (index self) - 1"
    using list_op_offset [of 1 self p] assms(3) by simp
  moreover have "int (length (index self)) \<le> off \<longrightarrow>
      list_op self (p\<lparr>p_limit := Some lim, p_offset := Some off\<rparr>) = []"
    using assms by (simp add: list_op_both)
  ultimately show ?thesis
    using assms by (simp add: list_op_both list_op_offset list_op_limit)
qed

text \<open>The store of \<open>doc_a\<close>, \<open>doc_b\<close>, \<open>doc_c\<close> with limit 1 and offset 1.\<close>

theorem list_pagination_witness:
  "list_op store_abc (no_parameters\<lparr>p_limit := Some 1, p_offset := Some 1\<rparr>) = [light doc_b]
   \<and> list_op store_abc (no_parameters\<lparr>p_limit := None, p_offset := Some 1\<rparr>)
        = [light doc_b, light doc_c]
   \<and> list_op store_abc (no_parameters\<lparr>p_limit := Some 1, p_offset := None\<rparr>) = [light doc_a]
   \<and> length (list_op store_abc (no_parameters\<lparr>p_limit := None, p_offset := Some 1\<rparr>)) = 2"
proof -
  have h: "int (length (index store_abc)) \<le> maxsize"
    by (simp add: store_abc_def maxsize_def)
  have i: "index store_abc = [doc_a, doc_b, doc_c]" by (simp add: store_abc_def)
  show ?thesis
    using list_pagination [of 1 1 store_abc no_parameters, OF _ _ h]
    by (simp add: i)
qed

text \<open>
  Claim C6 as stated fails on the empty store, where \<^verbatim>\<open>list({limit: 1})\<close> answers no
  document rather than one, and on a negative limit or offset, which Python's slice
  counts from the end: with three documents stored, \<^verbatim>\<open>list({limit: -1})\<close> answers two
  documents, more than the limit, and \<^verbatim>\<open>list({offset: -1})\<close> the last one only.
\<close>

theorem list_pagination_counterexample:
  "length (list_op (init Root) (no_parameters\<lparr>p_limit := Some 1\<rparr>)) = 0
   \<and> index store_abc = [doc_a, doc_b, doc_c]
   \<and> list_op store_abc (no_parameters\<lparr>p_limit := Some (- 1)\<rparr>) = [light doc_a, light doc_b]
   \<and> list_op store_abc (no_parameters\<lparr>p_offset := Some (- 1)\<rparr>) = [light doc_c]"
  by (simp add: list_op_def init_def no_parameters_def store_abc_def py_slice_def
      slice_bound_def maxsize_def)

text \<open>
  Claim C7. Indexing a batch that contains a document \<open>d\<close> and then listing with no
  limit and no offset answers a document with the id and the tags of \<open>d\<close>. The store
  holds no more than \<^verbatim>\<open>sys.maxsize\<close> documents, as every Python sequence.
\<close>

theorem index_then_list:
  assumes "d \<in> set docs"
    and "int (length (index self) + length docs) \<le> maxsize"
    and "p_limit p = None" and "p_offset p = None"
  shows "\<exists>x \<in> set (list_op (snd (index_op self docs)) p).
           doc_id x = doc_id d \<and> tags x = tags d"
proof -
  have "py_slice (index self @ docs) 0 (0 + maxsize) = drop (nat 0) (index self @ docs)"
    using assms(2) by (intro slice_default_limit) simp_all
  then have "list_op (snd (index_op self docs)) p = map light (index self @ docs)"
    using assms(3,4) by (simp add: list_op_def index_op_def)
  moreover have "doc_id (light d) = doc_id d \<and> tags (light d) = tags d"
    by (simp add: light_def)
  ultimately show ?thesis using assms(1) by auto
qed

text \<open>Indexing \<open>doc_a'\<close> into the store of three documents and listing.\<close>

theorem index_then_list_witness:
  "\<exists>x \<in> set (list_op (snd (index_op store_abc [doc_a'])) no_parameters).
           doc_id x = doc_id doc_a' \<and> tags x = tags doc_a'"
  using index_then_list [of doc_a' "[doc_a']" store_abc no_parameters]
  by (simp add: store_abc_def maxsize_def no_parameters_def)

lemma count_id_append: "count_id (xs @ ys) i = count_id xs i + count_id ys i"
  by (simp add: count_id_def)

text \<open>
  Claim C3, as amended. \<^verbatim>\<open>index\<close> appends: the store afterwards is the old store followed
  by the indexed documents, so no stored document is replaced or removed, and the
  number of stored documents with a given id grows by the number of indexed documents
  with that id.
\<close>

theorem index_appends:
  "index (snd (index_op self docs)) = index self @ docs
   \<and> take (length (index self)) (index (snd (index_op self docs))) = index self
   \<and> length (index (snd (index_op self docs))) = length (index self) + length docs
   \<and> count_id (index (snd (index_op self docs))) i = count_id (index self) i + count_id docs i"
proof -
  have e: "index (snd (index_op self docs)) = index self @ docs"
    by (simp add: index_op_def)
  show ?thesis
    unfolding e by (simp add: count_id_append)
qed

text \<open>
  Claim C3 as stated fails: indexing \<open>doc_a'\<close>, which has the id of the stored \<open>doc_a\<close> and
  other tags, leaves the stored version in place and adds a second entry with that id.
\<close>

theorem index_upsert_counterexample:
  "index (snd (index_op \<lparr>traversal_paths = Root, index = [doc_a]\<rparr> [doc_a'])) = [doc_a, doc_a']
   \<and> doc_id doc_a = doc_id doc_a' \<and> tags doc_a \<noteq> tags doc_a'
   \<and> count_id (index (snd (index_op \<lparr>traversal_paths = Root, index = [doc_a]\<rparr> [doc_a']))) ''a'' = 2"
  by (simp add: index_op_def doc_a_def doc_a'_def count_id_def)

subsection \<open>The mapping builder\<close>

text \<open>
  Claim C8. For the configuration \<^verbatim>\<open>clip\<close> (dimension 8) over \<^verbatim>\<open>title\<close> and \<^verbatim>\<open>sbert\<close>
  (dimension 5) over \<^verbatim>\<open>title\<close> and \<^verbatim>\<open>excerpt\<close>, with the cosine metric supported, the
  mapping is the one the test expects: the keyword field \<^verbatim>\<open>id\<close>, the analyzed text field
  \<^verbatim>\<open>bm25_text\<close> and the vector fields \<^verbatim>\<open>title-clip\<close>, \<^verbatim>\<open>title-sbert\<close>, \<^verbatim>\<open>excerpt-sbert\<close> with
  the dimensions \<^verbatim>\<open>'8'\<close>, \<^verbatim>\<open>'5'\<close>, \<^verbatim>\<open>'5'\<close> as strings, and nothing else.
\<close>

theorem mapping_scenario:
  "supported ''cosine'' \<Longrightarrow>
   generate_es_mapping supported document_mappings ''cosine'' = Inr expected_mapping"
  by (simp add: generate_es_mapping_def generate_mapping_def encodings_of_def
      document_mappings_def expected_mapping_def dense_vector_def vector_field_def)

text \<open>With cosine as the only supported metric.\<close>

theorem mapping_scenario_witness:
  "only_cosine ''cosine'' \<and>
   generate_es_mapping only_cosine document_mappings ''cosine'' = Inr expected_mapping"
  using mapping_scenario [of only_cosine] by (simp add: only_cosine_def)

subsection \<open>The filter adapter\<close>

lemma prefixed_neq: "''tags__'' @ k \<noteq> k"
proof
  assume "''tags__'' @ k = k"
  then have "length (''tags__'' @ k) = length k" by simp
  then show False by simp
qed

lemma adapt_query_leaf:
  "adapt_query (PDict [(k, c)]) = Inr (PDict [(''tags__'' @ k, c)])"
proof -
  have "k \<noteq> ''tags__'' @ k" using prefixed_neq [of k] by blast
  then show ?thesis by (simp add: dict_del_def prefixed_neq)
qed

lemma adapt_queries_leaves:
  "adapt_queries (map (\<lambda>(k, oper, v). PDict [(k, PDict [(oper, v)])]) ls)
     = Inr (map (\<lambda>(k, oper, v). PDict [(''tags__'' @ k, PDict [(oper, v)])]) ls)"
proof (induction ls)
  case Nil
  show ?case by simp
next
  case (Cons l ls)
  obtain k oper v where l: "l = (k, oper, v)" by (cases l)
  show ?case using Cons.IH by (simp add: l adapt_query_leaf del: adapt_query.simps)
qed

text \<open>
  Claim C9. For a filter of the supported shape, \<^verbatim>\<open>{'$and': [{k: {op: v}}, ...]}\<close>, the
  adapter rewrites the key \<^verbatim>\<open>k\<close> of every conjunct to \<^verbatim>\<open>tags__k\<close> and leaves its operator and
  value as they are, and \<^verbatim>\<open>filter_docs\<close> hands the rewritten filter to \<^verbatim>\<open>find\<close> on the
  index: the result is what \<^verbatim>\<open>find\<close> answers for it.
\<close>

theorem filter_translation:
  "adapt_filter [(''$and'', PList (map (\<lambda>(k, oper, v). PDict [(k, PDict [(oper, v)])]) ls))]
     = Inr [(''$and'',
             PList (map (\<lambda>(k, oper, v). PDict [(''tags__'' @ k, PDict [(oper, v)])]) ls))]
   \<and> filter_docs lib_find self
       (p\<lparr>p_filter :=
            Some (PDict [(''$and'',
              PList (map (\<lambda>(k, oper, v). PDict [(k, PDict [(oper, v)])]) ls))])\<rparr>)
     = lib (lib_find
         (PDict [(''$and'',
            PList (map (\<lambda>(k, oper, v). PDict [(''tags__'' @ k, PDict [(oper, v)])]) ls))])
         (index self))"
  by (simp add: filter_docs_def adapt_filter_def adapt_queries_leaves)







subsection \<open>\<open>/delete\<close>\<close>








subsection \<open>\<open>/search\<close>\<close>


lemma doc_id_set_chunks [simp]: "doc_id (set_chunks d cs) = doc_id d"
  by (cases d) simp

lemma matches_set_matches [simp]: "matches (set_matches d ms) = ms"
  by (cases d) simp











text \<open>
  The store after a search is the traversal of the store before it: unchanged for root
  documents, the chunks for \<^verbatim>\<open>"@c"\<close>.
\<close>

lemma search_index:
  "index (snd (search lib_find lib_match self docs p))
     = getitem_path (index self) (paths_of self p)"
  by (simp add: search_def Let_def split: sum.splits list.splits prod.splits)

lemma search_root_keeps_store:
  "paths_of self p = Root \<Longrightarrow> snd (search lib_find lib_match self docs p) = self"
  by (simp add: search_def Let_def split: sum.splits list.splits prod.splits)

text \<open>
  Claim C2 fails on the code. A chunk-level search on the store of \<open>parent_p\<close> and
  \<open>parent_r\<close> leaves their chunks as the index: the parents are no longer stored. The
  lookup of a parent in \<^verbatim>\<open>merge_matches\<close> then fails, since it reads the same index.
\<close>

theorem search_replaces_index:
  "search find_eq match_first store_pr [query_q] chunk_search
     = (Inl KeyError, \<lparr>traversal_paths = Root, index = [chunk_p1, chunk_p2, chunk_r1]\<rparr>)
   \<and> index store_pr = [parent_p, parent_r]"
  by (simp add: search_def Let_def paths_of_def limit_of_def chunk_search_def no_parameters_def
      filter_docs_def adapt_filter_def lib_def find_eq_def match_first_def store_pr_def
      query_q_def query_chunk_def parent_p_def parent_r_def chunk_p1_def chunk_p2_def
      chunk_r1_def getitem_id_def)



end
